theory Spec2Isabelle
  imports Complex_Main "HOL-Library.Multiset"
begin

section \<open>JavaScript values read by the Job model\<close>

text \<open>
  \<open>src/models/job.js\<close> applies three JavaScript operations to the fields of the
  \<open>data\<close> object of \<open>findAll\<close>: the truthiness test of \<open>if (x)\<close>, the numeric
  coercion of unary plus \<open>+x\<close>, and the string coercion of a template literal. The
  values are primitives; numbers are idealised as rationals plus \<open>NaN\<close>.
\<close>

datatype jsnum = NaN | Fin rat

datatype jsval = JUndefined | JNull | JBool bool | JNum jsnum | JStr string

text \<open>A JavaScript object; reading a property that is not there gives \<open>undefined\<close>.\<close>

type_synonym jsobj = "string \<rightharpoonup> jsval"

definition js_get :: "jsobj \<Rightarrow> string \<Rightarrow> jsval" where
  "js_get obj k = (case obj k of None \<Rightarrow> JUndefined | Some v \<Rightarrow> v)"

fun truthy :: "jsval \<Rightarrow> bool" where
  "truthy JUndefined = False"
| "truthy JNull = False"
| "truthy (JBool b) = b"
| "truthy (JNum NaN) = False"
| "truthy (JNum (Fin r)) = (r \<noteq> 0)"
| "truthy (JStr s) = (s \<noteq> [])"

section \<open>What the model takes from outside the repository\<close>

text \<open>
  Values stored in a column, as the storage engine holds them.
\<close>

datatype dbval = DNull | DInt int | DNum rat | DText string

text \<open>
  The operations of the JavaScript runtime and of the storage engine that the source
  relies on without defining them are parameters: the Number value of a string (unary
  plus on a string), the decimal text of a number (a number inside a template literal),
  and the engine's operators \<open>>=\<close> and \<open>ILIKE\<close> between a column value and a bound
  parameter (true when the row is kept). Every theorem below holds for all of them.
\<close>

record platform =
  str_to_number :: "string \<Rightarrow> jsnum"
  number_to_string :: "jsnum \<Rightarrow> string"
  sql_ge :: "dbval \<Rightarrow> jsval \<Rightarrow> bool"
  sql_ilike :: "dbval \<Rightarrow> jsval \<Rightarrow> bool"

text \<open>Unary plus, \<open>+x\<close>.\<close>

fun to_number :: "platform \<Rightarrow> jsval \<Rightarrow> jsnum" where
  "to_number pf JUndefined = NaN"
| "to_number pf JNull = Fin 0"
| "to_number pf (JBool b) = (if b then Fin 1 else Fin 0)"
| "to_number pf (JNum n) = n"
| "to_number pf (JStr s) = str_to_number pf s"

text \<open>The text a template literal \<open>`${x}`\<close> inserts.\<close>

fun to_string :: "platform \<Rightarrow> jsval \<Rightarrow> string" where
  "to_string pf JUndefined = ''undefined''"
| "to_string pf JNull = ''null''"
| "to_string pf (JBool b) = (if b then ''true'' else ''false'')"
| "to_string pf (JNum n) = number_to_string pf n"
| "to_string pf (JStr s) = s"

text \<open>Decimal text of an array length, as \<open>`$${queryValues.length}`\<close> prints it.\<close>

fun string_of_nat :: "nat \<Rightarrow> string" where
  "string_of_nat n =
     (if n < 10 then [''0123456789'' ! n]
      else string_of_nat (n div 10) @ [''0123456789'' ! (n mod 10)])"

declare string_of_nat.simps [simp del]

section \<open>Storage\<close>

text \<open>
  Modelled from the spec: the table declarations are not among the source files; the
  three tables and their keys are those of the persisted schema,
  \<open>jobs(id PK generated, title, salary, equity, company_handle FK\<rightarrow>companies.handle)\<close>,
  \<open>companies(handle PK, name, num_employees, description, logo_url)\<close> and
  \<open>applications(job_id FK\<rightarrow>jobs.id, username, state)\<close>, with salary and equity
  nullable numerics. Field names carry the table's initial.
\<close>

record job =
  j_id :: int
  j_title :: string
  j_salary :: "rat option"
  j_equity :: "rat option"
  j_company_handle :: string

record company =
  c_handle :: string
  c_name :: string
  c_num_employees :: "int option"
  c_description :: "string option"
  c_logo_url :: "string option"

record application =
  a_job_id :: int
  a_username :: string
  a_state :: "string option"

text \<open>
  The state behind \<open>db.query\<close>: the three tables (rows in storage order), the sequence
  that generates job identifiers, and a count of the statements sent so far. The count
  is not data of the program; it records that a call of \<open>db.query\<close> happened.
\<close>

record db =
  jobs :: "job list"
  companies :: "company list"
  applications :: "application list"
  next_id :: int
  issued :: nat

definition tick :: "db \<Rightarrow> db" where
  "tick d = d\<lparr>issued := Suc (issued d)\<rparr>"

text \<open>
  What a method throws: an \<open>Error\<close> object whose \<open>status\<close> field the method set (the
  message is left out), the validation error of the partial-update helper, or whatever
  \<open>db.query\<close> raised.
\<close>

datatype error = StatusError nat | ValidationError | StorageError

definition NotFound :: error where
  "NotFound = StatusError 404"

type_synonym 'a outcome = "(error + 'a) \<times> db"

section \<open>The FROM clause shared by the listings\<close>

text \<open>
  \<open>FROM jobs LEFT JOIN companies AS c ON company_handle = c.handle
  LEFT OUTER JOIN applications AS a on a.job_id = id AND a.username = $1\<close>:
  every job, once per matching company and matching application, and once with the
  side missing (SQL NULLs) where nothing matches.
\<close>

type_synonym joined = "job \<times> company option \<times> application option"

definition join_company :: "db \<Rightarrow> job \<Rightarrow> (job \<times> company option) list" where
  "join_company d j =
     (case filter (\<lambda>c. c_handle c = j_company_handle j) (companies d) of
        [] \<Rightarrow> [(j, None)]
      | cs \<Rightarrow> map (\<lambda>c. (j, Some c)) cs)"

definition join_application :: "db \<Rightarrow> string \<Rightarrow> job \<times> company option \<Rightarrow> joined list" where
  "join_application d username jc =
     (case filter (\<lambda>a. a_job_id a = j_id (fst jc) \<and> a_username a = username) (applications d) of
        [] \<Rightarrow> [(fst jc, snd jc, None)]
      | as \<Rightarrow> map (\<lambda>a. (fst jc, snd jc, Some a)) as)"

definition job_join :: "db \<Rightarrow> string \<Rightarrow> joined list" where
  "job_join d username =
     concat (map (join_application d username) (concat (map (join_company d) (jobs d))))"

text \<open>
  The columns an unqualified name can mean in that FROM clause, and the value of each in
  a joined row.
\<close>

definition join_columns :: "string list" where
  "join_columns =
     [''id'', ''title'', ''salary'', ''equity'', ''company_handle'',
      ''handle'', ''name'', ''num_employees'', ''description'', ''logo_url'',
      ''job_id'', ''username'', ''state'']"

definition opt_val :: "('a \<Rightarrow> dbval) \<Rightarrow> 'a option \<Rightarrow> dbval" where
  "opt_val f x = (case x of None \<Rightarrow> DNull | Some v \<Rightarrow> f v)"

definition column_value :: "joined \<Rightarrow> string \<Rightarrow> dbval" where
  "column_value r col =
     (case r of (j, c, a) \<Rightarrow>
        if col = ''id'' then DInt (j_id j)
        else if col = ''title'' then DText (j_title j)
        else if col = ''salary'' then opt_val DNum (j_salary j)
        else if col = ''equity'' then opt_val DNum (j_equity j)
        else if col = ''company_handle'' then DText (j_company_handle j)
        else if col = ''handle'' then opt_val (\<lambda>x. DText (c_handle x)) c
        else if col = ''name'' then opt_val (\<lambda>x. DText (c_name x)) c
        else if col = ''num_employees'' then opt_val (\<lambda>x. opt_val DInt (c_num_employees x)) c
        else if col = ''description'' then opt_val (\<lambda>x. opt_val DText (c_description x)) c
        else if col = ''logo_url'' then opt_val (\<lambda>x. opt_val DText (c_logo_url x)) c
        else if col = ''job_id'' then opt_val (\<lambda>x. DInt (a_job_id x)) a
        else if col = ''username'' then opt_val (\<lambda>x. DText (a_username x)) a
        else if col = ''state'' then opt_val (\<lambda>x. opt_val DText (a_state x)) a
        else DNull)"


section \<open>Rows returned to the caller\<close>

text \<open>
  \<open>SELECT id, title, company_handle, salary, equity, c.name, a.state\<close> (the row of
  \<open>findAll\<close> and \<open>findSome\<close>) and
  \<open>SELECT id, title, company_handle, salary, equity, c.name as company_name, a.state,
  a.username\<close> (the row of \<open>findUserJobs\<close>).
\<close>

record job_row =
  r_id :: int
  r_title :: string
  r_company_handle :: string
  r_salary :: "rat option"
  r_equity :: "rat option"
  r_name :: "string option"
  r_state :: "string option"

record user_job_row =
  u_id :: int
  u_title :: string
  u_company_handle :: string
  u_salary :: "rat option"
  u_equity :: "rat option"
  u_company_name :: "string option"
  u_state :: "string option"
  u_username :: "string option"

definition select_job_row :: "joined \<Rightarrow> job_row" where
  "select_job_row r =
     (case r of (j, c, a) \<Rightarrow>
        \<lparr>r_id = j_id j, r_title = j_title j, r_company_handle = j_company_handle j,
         r_salary = j_salary j, r_equity = j_equity j,
         r_name = map_option c_name c, r_state = Option.bind a a_state\<rparr>)"

definition select_user_job_row :: "joined \<Rightarrow> user_job_row" where
  "select_user_job_row r =
     (case r of (j, c, a) \<Rightarrow>
        \<lparr>u_id = j_id j, u_title = j_title j, u_company_handle = j_company_handle j,
         u_salary = j_salary j, u_equity = j_equity j,
         u_company_name = map_option c_name c, u_state = Option.bind a a_state,
         u_username = map_option a_username a\<rparr>)"

section \<open>findUserJobs\<close>

text \<open>
  The shared FROM clause followed by \<open>WHERE a.username = $1\<close>: a row whose application
  side is NULL does not satisfy the comparison and is dropped.
\<close>

definition username_is :: "string \<Rightarrow> joined \<Rightarrow> bool" where
  "username_is username r =
     (case snd (snd r) of None \<Rightarrow> False | Some a \<Rightarrow> a_username a = username)"

definition findUserJobs :: "db \<Rightarrow> string \<Rightarrow> user_job_row list outcome" where
  "findUserJobs d username =
     (Inr (map select_user_job_row (filter (username_is username) (job_join d username))),
      tick d)"

section \<open>findAll\<close>

text \<open>
  An entry of \<open>whereExpressions\<close>: a column name, an operator and the position of a
  parameter. The source pushes the texts \<open>min_salary >= $n\<close>, \<open>min_equity >= $n\<close> and
  \<open>title ILIKE $n\<close>; \<open>render\<close> gives the text back.
\<close>

datatype where_expr = Ge string nat | ILike string nat

fun render :: "where_expr \<Rightarrow> string" where
  "render (Ge col n) = col @ '' >= $'' @ string_of_nat n"
| "render (ILike col n) = col @ '' ILIKE $'' @ string_of_nat n"

fun expr_column :: "where_expr \<Rightarrow> string" where
  "expr_column (Ge col n) = col"
| "expr_column (ILike col n) = col"

fun expr_param :: "where_expr \<Rightarrow> nat" where
  "expr_param (Ge col n) = n"
| "expr_param (ILike col n) = n"

text \<open>\<open>Array.prototype.join\<close> on strings.\<close>

fun join :: "string \<Rightarrow> string list \<Rightarrow> string" where
  "join sep [] = []"
| "join sep [x] = x"
| "join sep (x # y # ys) = x @ sep @ join sep (y # ys)"

text \<open>The template literal of \<open>baseQuery\<close>, its line breaks and indentation written as single spaces.\<close>

definition baseQuery :: string where
  "baseQuery =
     ''SELECT id, title, company_handle, salary, equity, c.name, a.state '' @
     ''FROM jobs '' @
     ''LEFT JOIN companies AS c ON company_handle = c.handle '' @
     ''LEFT OUTER JOIN applications AS a on a.job_id = id AND a.username = $1''"

record filter_query =
  finalQuery :: string
  whereExpressions :: "where_expr list"
  queryValues :: "jsval list"

text \<open>
  Lines 27 to 59 of \<open>findAll\<close>: the statement and its parameters. Each \<open>if\<close> of the source
  pushes a value and then an expression that names the new length of \<open>queryValues\<close>.
\<close>

definition findAll_query :: "platform \<Rightarrow> jsobj \<Rightarrow> string \<Rightarrow> filter_query" where
  "findAll_query pf data username =
     (let whereExpressions0 = [];
          queryValues0 = [JStr username];
          queryValues1 =
            (if truthy (js_get data ''min_salary'')
             then queryValues0 @ [JNum (to_number pf (js_get data ''min_employees''))]
             else queryValues0);
          whereExpressions1 =
            (if truthy (js_get data ''min_salary'')
             then whereExpressions0 @ [Ge ''min_salary'' (length queryValues1)]
             else whereExpressions0);
          queryValues2 =
            (if truthy (js_get data ''max_equity'')
             then queryValues1 @ [JNum (to_number pf (js_get data ''max_employees''))]
             else queryValues1);
          whereExpressions2 =
            (if truthy (js_get data ''max_equity'')
             then whereExpressions1 @ [Ge ''min_equity'' (length queryValues2)]
             else whereExpressions1);
          queryValues3 =
            (if truthy (js_get data ''search'')
             then queryValues2 @ [JStr (''%'' @ to_string pf (js_get data ''search'') @ ''%'')]
             else queryValues2);
          whereExpressions3 =
            (if truthy (js_get data ''search'')
             then whereExpressions2 @ [ILike ''title'' (length queryValues3)]
             else whereExpressions2);
          baseQuery1 =
            (if length whereExpressions3 > 0 then baseQuery @ '' WHERE '' else baseQuery)
      in \<lparr>finalQuery = baseQuery1 @ join '' AND '' (map render whereExpressions3),
          whereExpressions = whereExpressions3,
          queryValues = queryValues3\<rparr>)"

text \<open>
  \<open>db.query(finalQuery, queryValues)\<close>. The engine first resolves every column name
  against the tables of the FROM clause and every \<open>$n\<close> against the parameter list, and
  raises an error if one of them does not exist, whatever the tables hold; then it keeps
  the joined rows on which all expressions hold.
\<close>

definition bound :: "'a list \<Rightarrow> nat \<Rightarrow> 'a option" where
  "bound qv n = (if 0 < n \<and> n \<le> length qv then Some (qv ! (n - 1)) else None)"

definition resolves :: "jsval list \<Rightarrow> where_expr \<Rightarrow> bool" where
  "resolves qv e = (expr_column e \<in> set join_columns \<and> bound qv (expr_param e) \<noteq> None)"

fun holds :: "platform \<Rightarrow> jsval list \<Rightarrow> joined \<Rightarrow> where_expr \<Rightarrow> bool" where
  "holds pf qv r (Ge col n) =
     (case bound qv n of None \<Rightarrow> False | Some v \<Rightarrow> sql_ge pf (column_value r col) v)"
| "holds pf qv r (ILike col n) =
     (case bound qv n of None \<Rightarrow> False | Some v \<Rightarrow> sql_ilike pf (column_value r col) v)"

definition select_jobs :: "platform \<Rightarrow> db \<Rightarrow> filter_query \<Rightarrow> error + job_row list" where
  "select_jobs pf d q =
     (case bound (queryValues q) 1 of
        Some (JStr username) \<Rightarrow>
          if list_all (resolves (queryValues q)) (whereExpressions q)
          then Inr (map select_job_row
                 (filter (\<lambda>r. list_all (holds pf (queryValues q) r) (whereExpressions q))
                    (job_join d username)))
          else Inl StorageError
      | _ \<Rightarrow> Inl StorageError)"

definition findAll :: "platform \<Rightarrow> db \<Rightarrow> jsobj \<Rightarrow> string \<Rightarrow> job_row list outcome" where
  "findAll pf d data username =
     (select_jobs pf d (findAll_query pf data username), tick d)"

section \<open>findSome\<close>

text \<open>
  \<open>ORDER BY id OFFSET $2 LIMIT $3\<close> on the shared FROM clause, then
  \<open>SELECT COUNT(*) FROM jobs\<close>. The engine rejects a negative OFFSET or LIMIT, and then
  the second statement is never sent.
\<close>

record page =
  offset :: int
  amt :: int

definition findSome :: "db \<Rightarrow> page \<Rightarrow> string \<Rightarrow> (job_row list \<times> nat) outcome" where
  "findSome d data username =
     (if offset data < 0 \<or> amt data < 0 then (Inl StorageError, tick d)
      else
        (Inr (map select_job_row
                (take (nat (amt data))
                   (drop (nat (offset data))
                      (sort_key (\<lambda>r. j_id (fst r)) (job_join d username)))),
              length (jobs d)),
         tick (tick d)))"


section \<open>findOne\<close>

text \<open>
  \<open>SELECT id, title, salary, equity, company_handle, c.name FROM jobs JOIN companies AS c
  ON company_handle = c.handle WHERE id = $1\<close>; its first row, if any, is completed with
  the first row of \<open>SELECT name, num_employees, description, logo_url FROM companies
  WHERE handle = $1\<close> as the field \<open>company\<close> (\<open>undefined\<close> when there is none).
\<close>

record company_info =
  ci_name :: string
  ci_num_employees :: "int option"
  ci_description :: "string option"
  ci_logo_url :: "string option"

record job_detail =
  jd_id :: int
  jd_title :: string
  jd_salary :: "rat option"
  jd_equity :: "rat option"
  jd_company_handle :: string
  jd_name :: string
  jd_company :: "company_info option"

definition inner_join_company :: "db \<Rightarrow> (job \<times> company) list" where
  "inner_join_company d =
     concat (map (\<lambda>j. map (\<lambda>c. (j, c))
                          (filter (\<lambda>c. c_handle c = j_company_handle j) (companies d)))
                 (jobs d))"

definition select_company_info :: "company \<Rightarrow> company_info" where
  "select_company_info c =
     \<lparr>ci_name = c_name c, ci_num_employees = c_num_employees c,
      ci_description = c_description c, ci_logo_url = c_logo_url c\<rparr>"

definition findOne :: "db \<Rightarrow> int \<Rightarrow> job_detail outcome" where
  "findOne d ident =
     (case filter (\<lambda>r. j_id (fst r) = ident) (inner_join_company d) of
        [] \<Rightarrow> (Inl (StatusError 404), tick d)
      | (j, c) # _ \<Rightarrow>
          (Inr \<lparr>jd_id = j_id j, jd_title = j_title j, jd_salary = j_salary j,
                jd_equity = j_equity j, jd_company_handle = j_company_handle j,
                jd_name = c_name c,
                jd_company =
                  (case filter (\<lambda>c'. c_handle c' = j_company_handle j) (companies d) of
                     [] \<Rightarrow> None
                   | c' # _ \<Rightarrow> Some (select_company_info c'))\<rparr>,
           tick (tick d)))"

section \<open>create\<close>

text \<open>
  \<open>INSERT INTO jobs (title, salary, equity, company_handle) VALUES ($1, $2, $3, $4)
  RETURNING id, title, salary, equity, company_handle\<close>. The fields of \<open>data\<close> are taken
  as values of the column types. The identifier comes from the sequence, which advances
  whether or not the row is accepted; the engine refuses a row whose company does not
  exist (foreign key) or whose identifier is taken (primary key).
\<close>

record job_data =
  title :: string
  salary :: "rat option"
  equity :: "rat option"
  company_handle :: string

definition create :: "db \<Rightarrow> job_data \<Rightarrow> job outcome" where
  "create d data =
     (let row = \<lparr>j_id = next_id d, j_title = title data, j_salary = salary data,
                 j_equity = equity data, j_company_handle = company_handle data\<rparr>;
          d' = tick (d\<lparr>next_id := next_id d + 1\<rparr>)
      in if list_ex (\<lambda>c. c_handle c = company_handle data) (companies d)
            \<and> \<not> list_ex (\<lambda>j. j_id j = next_id d) (jobs d)
         then (Inr row, d'\<lparr>jobs := jobs d @ [row]\<rparr>)
         else (Inl StorageError, d'))"

section \<open>update\<close>

text \<open>
  Modelled from the spec: \<open>../helpers/partialUpdate\<close> (\<open>sqlForPartialUpdate\<close>) is not
  among the source files. Given a table name, a field-to-value map (here in its key
  order), an identifier column and an identifier value, it produces an UPDATE statement
  that sets exactly the supplied fields, in map order, filters on the identifier column
  and returns the updated row, together with the ordered parameter list, the identifier
  value last; it fails with a validation error when the map is empty. Column names are
  taken verbatim from the keys.
\<close>

record update_stmt =
  us_table :: string
  us_sets :: "(string \<times> nat) list"
  us_key :: string
  us_key_param :: nat

definition sqlForPartialUpdate ::
  "string \<Rightarrow> (string \<times> dbval) list \<Rightarrow> string \<Rightarrow> dbval \<Rightarrow> error + update_stmt \<times> dbval list" where
  "sqlForPartialUpdate table items key ident =
     (if items = [] then Inl ValidationError
      else Inr (\<lparr>us_table = table,
                 us_sets = zip (map fst items) [1 ..< Suc (length items)],
                 us_key = key,
                 us_key_param = Suc (length items)\<rparr>,
                map snd items @ [ident]))"

text \<open>
  Modelled from the spec: the engine running that UPDATE on the jobs table of the
  persisted schema. Before touching a row it resolves the table, every column name and
  every parameter, and converts each parameter to the type of its column (NULL converts
  to every type); any failure is a storage error. Then every row whose key column equals
  the key value is assigned the new values in order; a NULL in \<open>id\<close>, \<open>title\<close> or
  \<open>company_handle\<close>, a company that does not exist, a duplicate identifier or an
  application left without its job is a storage error and changes nothing. The changed
  rows are returned.
\<close>

definition coerce :: "string \<Rightarrow> dbval \<Rightarrow> dbval option" where
  "coerce col v =
     (if col = ''id'' then
        (case v of DNull \<Rightarrow> Some DNull | DInt i \<Rightarrow> Some (DInt i) | _ \<Rightarrow> None)
      else if col = ''title'' \<or> col = ''company_handle'' then
        (case v of DNull \<Rightarrow> Some DNull | DText s \<Rightarrow> Some (DText s) | _ \<Rightarrow> None)
      else if col = ''salary'' \<or> col = ''equity'' then
        (case v of DNull \<Rightarrow> Some DNull | DInt i \<Rightarrow> Some (DNum (of_int i))
         | DNum r \<Rightarrow> Some (DNum r) | _ \<Rightarrow> None)
      else None)"

definition job_column :: "job \<Rightarrow> string \<Rightarrow> dbval" where
  "job_column j col =
     (if col = ''id'' then DInt (j_id j)
      else if col = ''title'' then DText (j_title j)
      else if col = ''salary'' then opt_val DNum (j_salary j)
      else if col = ''equity'' then opt_val DNum (j_equity j)
      else if col = ''company_handle'' then DText (j_company_handle j)
      else DNull)"

definition assign :: "string \<Rightarrow> dbval \<Rightarrow> job \<Rightarrow> job option" where
  "assign col v j =
     (if col = ''id'' then (case v of DInt i \<Rightarrow> Some (j\<lparr>j_id := i\<rparr>) | _ \<Rightarrow> None)
      else if col = ''title'' then (case v of DText s \<Rightarrow> Some (j\<lparr>j_title := s\<rparr>) | _ \<Rightarrow> None)
      else if col = ''salary'' then
        (case v of DNull \<Rightarrow> Some (j\<lparr>j_salary := None\<rparr>)
         | DNum r \<Rightarrow> Some (j\<lparr>j_salary := Some r\<rparr>) | _ \<Rightarrow> None)
      else if col = ''equity'' then
        (case v of DNull \<Rightarrow> Some (j\<lparr>j_equity := None\<rparr>)
         | DNum r \<Rightarrow> Some (j\<lparr>j_equity := Some r\<rparr>) | _ \<Rightarrow> None)
      else if col = ''company_handle'' then
        (case v of DText s \<Rightarrow> Some (j\<lparr>j_company_handle := s\<rparr>) | _ \<Rightarrow> None)
      else None)"

fun assign_all :: "(string \<times> dbval) list \<Rightarrow> job \<Rightarrow> job option" where
  "assign_all [] j = Some j"
| "assign_all ((col, v) # rest) j =
     (case assign col v j of None \<Rightarrow> None | Some j' \<Rightarrow> assign_all rest j')"

text \<open>The parameters of the statement, each converted for its column; \<open>None\<close> when one does not resolve.\<close>

fun typed_params :: "dbval list \<Rightarrow> (string \<times> nat) list \<Rightarrow> (string \<times> dbval) list option" where
  "typed_params vs [] = Some []"
| "typed_params vs ((col, n) # rest) =
     (case Option.bind (bound vs n) (coerce col) of
        None \<Rightarrow> None
      | Some v \<Rightarrow> map_option ((#) (col, v)) (typed_params vs rest))"

fun update_rows :: "(job \<Rightarrow> bool) \<Rightarrow> (string \<times> dbval) list \<Rightarrow> job list \<Rightarrow> (job list \<times> job list) option" where
  "update_rows hit sets [] = Some ([], [])"
| "update_rows hit sets (j # js) =
     (case update_rows hit sets js of
        None \<Rightarrow> None
      | Some (all_rows, changed) \<Rightarrow>
          if hit j then
            (case assign_all sets j of
               None \<Rightarrow> None
             | Some j' \<Rightarrow> Some (j' # all_rows, j' # changed))
          else Some (j # all_rows, changed))"

definition constraints_hold :: "db \<Rightarrow> job list \<Rightarrow> job list \<Rightarrow> bool" where
  "constraints_hold d all_rows changed =
     (distinct (map j_id all_rows)
      \<and> list_all (\<lambda>j. j_company_handle j \<in> set (map c_handle (companies d))) changed
      \<and> list_all (\<lambda>a. a_job_id a \<in> set (map j_id all_rows))
           (filter (\<lambda>a. a_job_id a \<in> set (map j_id (jobs d))) (applications d)))"

definition run_update :: "db \<Rightarrow> update_stmt \<Rightarrow> dbval list \<Rightarrow> job list outcome" where
  "run_update d stmt vs =
     (if us_table stmt = ''jobs'' \<and> distinct (map fst (us_sets stmt))
      then
        (case (typed_params vs (us_sets stmt),
               Option.bind (bound vs (us_key_param stmt)) (coerce (us_key stmt))) of
           (Some sets, Some k) \<Rightarrow>
             (case update_rows (\<lambda>j. k \<noteq> DNull \<and> job_column j (us_key stmt) = k) sets (jobs d) of
                None \<Rightarrow> (Inl StorageError, tick d)
              | Some (all_rows, changed) \<Rightarrow>
                  if changed = [] then (Inr [], tick d)
                  else if constraints_hold d all_rows changed
                  then (Inr changed, tick (d\<lparr>jobs := all_rows\<rparr>))
                  else (Inl StorageError, tick d))
         | _ \<Rightarrow> (Inl StorageError, tick d))
      else (Inl StorageError, tick d))"

text \<open>\<open>Job.update\<close>: build, run, and take the first returned row.\<close>

definition update :: "db \<Rightarrow> int \<Rightarrow> (string \<times> dbval) list \<Rightarrow> job outcome" where
  "update d ident data =
     (case sqlForPartialUpdate ''jobs'' data ''id'' (DInt ident) of
        Inl e \<Rightarrow> (Inl e, d)
      | Inr (stmt, vs) \<Rightarrow>
          (case run_update d stmt vs of
             (Inl e, d') \<Rightarrow> (Inl e, d')
           | (Inr [], d') \<Rightarrow> (Inl (StatusError 404), d')
           | (Inr (j # _), d') \<Rightarrow> (Inr j, d')))"

section \<open>remove, apply, unapply\<close>

text \<open>
  \<open>DELETE FROM jobs WHERE id = $1 RETURNING id\<close>. Modelled from the spec: the foreign
  key of applications on \<open>jobs.id\<close> has no cascade, so the engine refuses to delete a job
  that an application still references.
\<close>

definition remove :: "db \<Rightarrow> int \<Rightarrow> unit outcome" where
  "remove d ident =
     (let gone = filter (\<lambda>j. j_id j = ident) (jobs d)
      in if gone \<noteq> [] \<and> list_ex (\<lambda>a. a_job_id a = ident) (applications d)
         then (Inl StorageError, tick d)
         else if length gone = 0
         then (Inl (StatusError 404), tick d)
         else (Inr (), tick (d\<lparr>jobs := filter (\<lambda>j. j_id j \<noteq> ident) (jobs d)\<rparr>)))"

text \<open>
  \<open>SELECT id FROM jobs WHERE id = $1\<close>, then
  \<open>INSERT INTO applications (job_id, username, state) VALUES ($1, $2, $3)\<close>. The spec
  declares no key on applications, so the insert is always accepted once the job exists.
\<close>

definition apply_job :: "db \<Rightarrow> int \<Rightarrow> string \<Rightarrow> string option \<Rightarrow> unit outcome" where
  "apply_job d ident username state =
     (let result = filter (\<lambda>j. j_id j = ident) (jobs d)
      in if length result = 0 then (Inl (StatusError 404), tick d)
         else (Inr (),
               tick ((tick d)\<lparr>applications :=
                 applications d @ [\<lparr>a_job_id = ident, a_username = username, a_state = state\<rparr>]\<rparr>)))"

text \<open>\<open>DELETE FROM applications WHERE job_id = $1 AND username = $2 RETURNING job_id\<close>.\<close>

definition unapply :: "db \<Rightarrow> int \<Rightarrow> string \<Rightarrow> unit outcome" where
  "unapply d ident username =
     (let gone = filter (\<lambda>a. a_job_id a = ident \<and> a_username a = username) (applications d)
      in if length gone = 0 then (Inl (StatusError 404), tick d)
         else (Inr (),
               tick (d\<lparr>applications :=
                 filter (\<lambda>a. \<not> (a_job_id a = ident \<and> a_username a = username)) (applications d)\<rparr>)))"


section \<open>Notions used to state the properties\<close>

text \<open>The user has an application for the job with this identifier.\<close>

definition has_application :: "db \<Rightarrow> string \<Rightarrow> int \<Rightarrow> bool" where
  "has_application d username ident =
     list_ex (\<lambda>a. a_job_id a = ident \<and> a_username a = username) (applications d)"



text \<open>The columns of jobs.\<close>

definition job_columns :: "string list" where
  "job_columns = [''id'', ''title'', ''salary'', ''equity'', ''company_handle'']"


text \<open>
  A field map that the partial-update helper and the engine both accept: not empty, no
  column twice, every key a column of jobs and every value convertible to its column.
\<close>

definition storable :: "(string \<times> dbval) list \<Rightarrow> bool" where
  "storable data =
     (data \<noteq> [] \<and> distinct (map fst data) \<and> list_all (\<lambda>f. coerce (fst f) (snd f) \<noteq> None) data)"

text \<open>
  Concrete inputs. The platform below is one of the admissible ones; it is used only at
  inputs where none of its four entries is consulted. The tables are the three jobs with
  salaries 50000, 70000 and 90000 of the spec's scenario, without and with one
  application.
\<close>

definition sample_platform :: platform where
  "sample_platform =
     \<lparr>str_to_number = (\<lambda>s. NaN), number_to_string = (\<lambda>n. ''NaN''),
      sql_ge = (\<lambda>c v. False), sql_ilike = (\<lambda>c v. False)\<rparr>"

definition acme :: company where
  "acme = \<lparr>c_handle = ''acme'', c_name = ''Acme'', c_num_employees = Some 10,
           c_description = None, c_logo_url = None\<rparr>"

definition three_jobs :: db where
  "three_jobs =
     \<lparr>jobs =
        [\<lparr>j_id = 1, j_title = ''clerk'', j_salary = Some 50000, j_equity = None,
          j_company_handle = ''acme''\<rparr>,
         \<lparr>j_id = 2, j_title = ''coder'', j_salary = Some 70000, j_equity = None,
          j_company_handle = ''acme''\<rparr>,
         \<lparr>j_id = 3, j_title = ''chief'', j_salary = Some 90000, j_equity = None,
          j_company_handle = ''acme''\<rparr>],
      companies = [acme],
      applications = [],
      next_id = 4,
      issued = 0\<rparr>"

definition alice_applied :: db where
  "alice_applied =
     three_jobs\<lparr>applications :=
       [\<lparr>a_job_id = 2, a_username = ''alice'', a_state = Some ''applied''\<rparr>]\<rparr>"

definition tester :: job_data where
  "tester = \<lparr>title = ''tester'', salary = Some 60000, equity = Some (1 / 10),
              company_handle = ''acme''\<rparr>"

section \<open>Facts about the joins\<close>

lemma set_join_application:
  "set (join_application d username jc) =
     (if filter (\<lambda>a. a_job_id a = j_id (fst jc) \<and> a_username a = username) (applications d) = []
      then {(fst jc, snd jc, None)}
      else (\<lambda>a. (fst jc, snd jc, Some a)) `
             set (filter (\<lambda>a. a_job_id a = j_id (fst jc) \<and> a_username a = username) (applications d)))"
  unfolding join_application_def
  by (cases "filter (\<lambda>a. a_job_id a = j_id (fst jc) \<and> a_username a = username) (applications d)")
     simp_all

lemma join_application_fst:
  "r \<in> set (join_application d username jc) \<Longrightarrow> fst r = fst jc"
  by (auto simp: set_join_application split: if_splits)

lemma join_application_username_is:
  assumes "r \<in> set (join_application d username jc)"
  shows "username_is username r = has_application d username (j_id (fst jc))"
proof (cases "filter (\<lambda>a. a_job_id a = j_id (fst jc) \<and> a_username a = username) (applications d) = []")
  case True
  then have "r = (fst jc, snd jc, None)"
    using assms by (simp add: set_join_application)
  moreover have "\<not> has_application d username (j_id (fst jc))"
    using True by (auto simp: has_application_def list_ex_iff filter_empty_conv)
  ultimately show ?thesis by (simp add: username_is_def)
next
  case False
  then obtain a where a: "r = (fst jc, snd jc, Some a)" "a \<in> set (applications d)"
      "a_job_id a = j_id (fst jc)" "a_username a = username"
    using assms by (auto simp: set_join_application)
  then have "has_application d username (j_id (fst jc))"
    by (auto simp: has_application_def list_ex_iff)
  then show ?thesis using a by (simp add: username_is_def)
qed

lemma job_join_username_is:
  assumes "r \<in> set (job_join d username)"
  shows "username_is username r = has_application d username (j_id (fst r))"
proof -
  from assms obtain jc where "r \<in> set (join_application d username jc)"
    by (auto simp: job_join_def)
  then show ?thesis
    using join_application_username_is join_application_fst by metis
qed

lemma join_company_fst: "fst ` set (join_company d j) = {j}"
  by (auto simp: join_company_def image_iff split: list.splits)

lemma join_application_fst_set: "fst ` set (join_application d username jc) = {fst jc}"
  by (auto simp: join_application_def image_iff split: list.splits)

lemma job_join_jobs: "fst ` set (job_join d username) = set (jobs d)"
proof -
  have "fst ` set (job_join d username)
          = (\<Union>jc \<in> set (concat (map (join_company d) (jobs d))).
               fst ` set (join_application d username jc))"
    by (auto simp: job_join_def)
  also have "\<dots> = fst ` set (concat (map (join_company d) (jobs d)))"
    by (simp add: join_application_fst_set) blast
  also have "\<dots> = (\<Union>j \<in> set (jobs d). fst ` set (join_company d j))"
    by auto
  also have "\<dots> = set (jobs d)"
    by (simp add: join_company_fst)
  finally show ?thesis .
qed

lemma job_join_application:
  assumes "r \<in> set (job_join d username)" "username_is username r"
  shows "\<exists>a \<in> set (applications d).
           snd (snd r) = Some a \<and> a_job_id a = j_id (fst r) \<and> a_username a = username"
proof -
  from assms(1) obtain jc where jc: "r \<in> set (join_application d username jc)"
    by (auto simp: job_join_def)
  from assms(2) obtain a where a: "snd (snd r) = Some a"
    by (auto simp: username_is_def split: option.splits)
  show ?thesis
    using jc a by (auto simp: set_join_application split: if_splits)
qed






lemma select_job_row_id: "r_id (select_job_row r) = j_id (fst r)"
  by (cases r) (simp add: select_job_row_def)

lemma select_user_job_row_id: "u_id (select_user_job_row r) = j_id (fst r)"
  by (cases r) (simp add: select_user_job_row_def)

lemma sorted_select_job_row:
  "sorted (map (\<lambda>r. j_id (fst r)) xs) \<Longrightarrow> sorted (map r_id (map select_job_row xs))"
  by (simp add: comp_def select_job_row_id)

section \<open>Facts about the query builder and the lookups\<close>

lemma string_of_nat_digits:
  "string_of_nat (Suc (Suc 0)) = ''2''"
  "string_of_nat (Suc (Suc (Suc 0))) = ''3''"
  "string_of_nat (Suc (Suc (Suc (Suc 0)))) = ''4''"
  "string_of_nat 2 = ''2''"
  "string_of_nat 3 = ''3''"
  "string_of_nat 4 = ''4''"
  by (subst string_of_nat.simps, simp)+

lemma js_get_upd:
  "js_get (data(k \<mapsto> v)) k' = (if k' = k then v else js_get data k')"
  "js_get (data(k := None)) k' = (if k' = k then JUndefined else js_get data k')"
  by (simp_all add: js_get_def)



lemma filter_pairs:
  "filter (\<lambda>r. j_id (fst r) = i) (concat (map (\<lambda>j. map (\<lambda>c. (j, c)) (f j)) js))
     = concat (map (\<lambda>j. map (\<lambda>c. (j, c)) (f j)) (filter (\<lambda>j. j_id j = i) js))"
  by (induction js) (simp_all add: filter_map comp_def)

lemma findOne_lookup:
  "filter (\<lambda>r. j_id (fst r) = i) (inner_join_company d)
     = concat (map (\<lambda>j. map (\<lambda>c. (j, c))
                           (filter (\<lambda>c. c_handle c = j_company_handle j) (companies d)))
                   (filter (\<lambda>j. j_id j = i) (jobs d)))"
  unfolding inner_join_company_def by (rule filter_pairs)

lemma filter_absent: "i \<notin> set (map j_id js) \<Longrightarrow> filter (\<lambda>j. j_id j = i) js = []"
  by (induction js) auto

lemma findOne_absent:
  "ident \<notin> set (map j_id (jobs d)) \<Longrightarrow> findOne d ident = (Inl (StatusError 404), tick d)"
  by (simp add: findOne_def findOne_lookup filter_absent)

lemma remove_absent:
  "ident \<notin> set (map j_id (jobs d)) \<Longrightarrow> remove d ident = (Inl (StatusError 404), tick d)"
  by (simp add: remove_def filter_absent)

section \<open>Facts about the partial update\<close>

lemma typed_params_zip:
  "list_all (\<lambda>f. coerce (fst f) (snd f) \<noteq> None) items \<Longrightarrow>
   typed_params (pre @ map snd items @ post)
     (zip (map fst items) [Suc (length pre) ..< Suc (length pre + length items)]) \<noteq> None"
proof (induction items arbitrary: pre)
  case Nil
  then show ?case by simp
next
  case (Cons f items)
  obtain c v where f: "f = (c, v)" by (cases f)
  from Cons.prems f obtain v' where v': "coerce c v = Some v'" by auto
  have b: "bound (pre @ v # map snd items @ post) (Suc (length pre)) = Some v"
    by (simp add: bound_def nth_append)
  have "typed_params ((pre @ [v]) @ map snd items @ post)
          (zip (map fst items)
             [Suc (length (pre @ [v])) ..< Suc (length (pre @ [v]) + length items)]) \<noteq> None"
    using Cons.prems by (intro Cons.IH) simp
  then obtain rest where rest: "typed_params (pre @ v # map snd items @ post)
          (zip (map fst items)
             [Suc (Suc (length pre)) ..< Suc (Suc (length pre + length items))]) = Some rest"
    by auto
  have "[Suc (length pre) ..< Suc (length pre + length (f # items))]
          = Suc (length pre) # [Suc (Suc (length pre)) ..< Suc (Suc (length pre + length items))]"
    by (simp add: upt_rec)
  then show ?case
    using f v' b rest by simp
qed

lemma update_rows_miss:
  "list_all (\<lambda>j. \<not> hit j) js \<Longrightarrow> update_rows hit sets js = Some (js, [])"
  by (induction js) simp_all

lemma run_update_absent:
  assumes "ident \<notin> set (map j_id (jobs d))" and "storable data"
  shows "run_update d
           \<lparr>us_table = ''jobs'', us_sets = zip (map fst data) [1 ..< Suc (length data)],
            us_key = ''id'', us_key_param = Suc (length data)\<rparr>
           (map snd data @ [DInt ident]) = (Inr [], tick d)"
proof -
  let ?vs = "map snd data @ [DInt ident]"
  let ?sets = "zip (map fst data) [1 ..< Suc (length data)]"
  have d1: "distinct (map fst ?sets)"
    using assms(2) by (simp add: storable_def)
  have "typed_params ([] @ map snd data @ [DInt ident])
          (zip (map fst data)
             [Suc (length ([]::dbval list)) ..< Suc (length ([]::dbval list) + length data)]) \<noteq> None"
    using assms(2) unfolding storable_def by (intro typed_params_zip) simp
  then obtain sets where sets: "typed_params ?vs ?sets = Some sets"
    by auto
  have key: "Option.bind (bound ?vs (Suc (length data))) (coerce ''id'') = Some (DInt ident)"
    by (simp add: bound_def nth_append coerce_def)
  have miss: "list_all (\<lambda>j. \<not> (DInt ident \<noteq> DNull \<and> job_column j ''id'' = DInt ident)) (jobs d)"
    using assms(1) by (auto simp: list_all_iff job_column_def)
  show ?thesis
    using d1 sets key update_rows_miss [OF miss] by (simp add: run_update_def)
qed

lemma update_absent:
  assumes "ident \<notin> set (map j_id (jobs d))" and "storable data"
  shows "update d ident data = (Inl (StatusError 404), tick d)"
proof -
  have "data \<noteq> []" using assms(2) by (simp add: storable_def)
  then show ?thesis
    using run_update_absent [OF assms] by (simp add: update_def sqlForPartialUpdate_def)
qed


lemma typed_params_reject:
  "list_ex (\<lambda>f. coerce (fst f) (snd f) = None) items \<Longrightarrow>
   typed_params (pre @ map snd items @ post)
     (zip (map fst items) [Suc (length pre) ..< Suc (length pre + length items)]) = None"
proof (induction items arbitrary: pre)
  case Nil
  then show ?case by simp
next
  case (Cons f items)
  obtain c v where f: "f = (c, v)" by (cases f)
  have b: "bound (pre @ v # map snd items @ post) (Suc (length pre)) = Some v"
    by (simp add: bound_def nth_append)
  have u: "[Suc (length pre) ..< Suc (length pre + length (f # items))]
          = Suc (length pre) # [Suc (Suc (length pre)) ..< Suc (Suc (length pre + length items))]"
    by (simp add: upt_rec)
  show ?case
  proof (cases "coerce c v = None")
    case True
    from u show ?thesis using f b True by simp
  next
    case False
    then obtain y where y: "coerce c v = Some y" by auto
    have "list_ex (\<lambda>f. coerce (fst f) (snd f) = None) items"
      using Cons.prems f False by auto
    then have "typed_params ((pre @ [v]) @ map snd items @ post)
          (zip (map fst items)
             [Suc (length (pre @ [v])) ..< Suc (length (pre @ [v]) + length items)]) = None"
      by (rule Cons.IH)
    then have rest: "typed_params (pre @ v # map snd items @ post)
          (zip (map fst items)
             [Suc (Suc (length pre)) ..< Suc (Suc (length pre + length items))]) = None"
      by simp
    from u show ?thesis using f y b rest by simp
  qed
qed

lemma update_rejected:
  assumes "data \<noteq> []" and "\<not> storable data"
  shows "update d ident data = (Inl StorageError, tick d)"
proof (cases "distinct (map fst data)")
  case False
  have "map fst (zip (map fst data) [1 ..< Suc (length data)]) = map fst data"
    by (rule map_fst_zip) (simp del: upt_Suc)
  with False have "\<not> distinct (map fst (zip (map fst data) [1 ..< Suc (length data)]))"
    by simp
  then show ?thesis
    using assms(1) by (simp add: update_def sqlForPartialUpdate_def run_update_def)
next
  case True
  then have "list_ex (\<lambda>f. coerce (fst f) (snd f) = None) data"
    using assms by (auto simp: storable_def list_ex_iff list_all_iff)
  then have "typed_params ([] @ map snd data @ [DInt ident])
          (zip (map fst data)
             [Suc (length ([]::dbval list)) ..< Suc (length ([]::dbval list) + length data)]) = None"
    by (rule typed_params_reject)
  then have "typed_params (map snd data @ [DInt ident])
          (zip (map fst data) [1 ..< Suc (length data)]) = None"
    by simp
  then show ?thesis
    using assms(1) by (simp add: update_def sqlForPartialUpdate_def run_update_def)
qed

lemma unknown_column_not_storable:
  "list_ex (\<lambda>f. fst f \<notin> set job_columns) data \<Longrightarrow> \<not> storable data"
  by (auto simp: storable_def list_ex_iff list_all_iff job_columns_def coerce_def)

lemma update_unknown_column:
  assumes "list_ex (\<lambda>f. fst f \<notin> set job_columns) data"
  shows "update d ident data = (Inl StorageError, tick d)"
proof -
  have "data \<noteq> []" using assms by auto
  then show ?thesis
    using assms by (intro update_rejected unknown_column_not_storable)
qed

section \<open>The sample tables, joined\<close>

lemma three_jobs_join:
  "job_join three_jobs username =
     [(\<lparr>j_id = 1, j_title = ''clerk'', j_salary = Some 50000, j_equity = None,
        j_company_handle = ''acme''\<rparr>, Some acme, None),
      (\<lparr>j_id = 2, j_title = ''coder'', j_salary = Some 70000, j_equity = None,
        j_company_handle = ''acme''\<rparr>, Some acme, None),
      (\<lparr>j_id = 3, j_title = ''chief'', j_salary = Some 90000, j_equity = None,
        j_company_handle = ''acme''\<rparr>, Some acme, None)]"
  by (simp add: job_join_def join_company_def join_application_def three_jobs_def acme_def)


lemma page_scenario:
  "fst (findSome three_jobs \<lparr>offset = 1, amt = 1\<rparr> ''alice'') =
     Inr ([\<lparr>r_id = 2, r_title = ''coder'', r_company_handle = ''acme'', r_salary = Some 70000,
            r_equity = None, r_name = Some ''Acme'', r_state = None\<rparr>], 3)"
  by (simp add: findSome_def three_jobs_join select_job_row_def acme_def)
     (simp add: three_jobs_def)

section \<open>Filtered search: which field is read, which column is filtered\<close>

text \<open>
  Claim C1 says that a search with a minimum-salary threshold returns exactly the jobs
  whose salary is at least the threshold, and likewise for equity. The source does
  otherwise. With \<open>data = {min_salary: 60000}\<close> the test \<open>data.min_salary\<close> succeeds, the
  value pushed is \<open>+data.min_employees\<close>, which is \<open>NaN\<close> because that field is absent, and
  the expression pushed names the column \<open>min_salary\<close>, which no table of the FROM
  clause has; the statement is refused by the engine whatever the jobs are, here the
  three jobs with salaries 50000, 70000 and 90000. The equity branch is tested on
  \<open>data.max_equity\<close>, pushes \<open>+data.max_employees\<close> and names the column \<open>min_equity\<close>,
  with the same outcome.
\<close>

theorem findAll_min_salary_scenario:
  "findAll_query pf [''min_salary'' \<mapsto> JNum (Fin 60000)] ''alice''
     = \<lparr>finalQuery = baseQuery @ '' WHERE min_salary >= $2'',
        whereExpressions = [Ge ''min_salary'' 2],
        queryValues = [JStr ''alice'', JNum NaN]\<rparr>
   \<and> fst (findAll pf three_jobs [''min_salary'' \<mapsto> JNum (Fin 60000)] ''alice'') = Inl StorageError
   \<and> findAll_query pf [''max_equity'' \<mapsto> JNum (Fin (1 / 2))] ''alice''
     = \<lparr>finalQuery = baseQuery @ '' WHERE min_equity >= $2'',
        whereExpressions = [Ge ''min_equity'' 2],
        queryValues = [JStr ''alice'', JNum NaN]\<rparr>
   \<and> fst (findAll pf three_jobs [''max_equity'' \<mapsto> JNum (Fin (1 / 2))] ''alice'') = Inl StorageError"
  by (simp add: findAll_def findAll_query_def js_get_def select_jobs_def bound_def resolves_def
        join_columns_def string_of_nat_digits)

section \<open>Search without criteria and the listing for a user\<close>




text \<open>
  Claim C3 says that \<open>findUserJobs\<close> returns every job in storage, with a null state
  for the jobs the user has not applied to. It does not: with three jobs and no
  application it returns no row.
\<close>

theorem findUserJobs_drops_unapplied:
  "map j_id (jobs three_jobs) = [1, 2, 3]
   \<and> fst (findUserJobs three_jobs ''alice'') = Inr []"
  by (simp add: findUserJobs_def three_jobs_join username_is_def) (simp add: three_jobs_def)

text \<open>
  Claim C3, amended: for every username, \<open>findUserJobs\<close> returns rows for exactly the
  jobs in storage that the user has an application for; every row carries the username
  and the state of such an application of the row's job. Jobs without an application of
  the user are filtered out by \<open>WHERE a.username = $1\<close>.
\<close>

theorem findUserJobs_applied_only:
  "\<exists>urows.
     fst (findUserJobs d username) = Inr urows
     \<and> set (map u_id urows) = {i \<in> set (map j_id (jobs d)). has_application d username i}
     \<and> (\<forall>r \<in> set urows. u_username r = Some username
            \<and> (\<exists>a \<in> set (applications d).
                  a_job_id a = u_id r \<and> a_username a = username \<and> a_state a = u_state r))"
proof -
  let ?J = "job_join d username"
  let ?U = "map select_user_job_row (filter (username_is username) ?J)"
  have ids: "set (map u_id ?U) = {i \<in> set (map j_id (jobs d)). has_application d username i}"
  proof -
    have "set (map u_id ?U) = (\<lambda>r. j_id (fst r)) ` {r \<in> set ?J. username_is username r}"
      by (simp add: comp_def select_user_job_row_id image_image)
    also have "\<dots> = (\<lambda>r. j_id (fst r)) ` {r \<in> set ?J. has_application d username (j_id (fst r))}"
      using job_join_username_is by (intro arg_cong [where f = "image _"]) blast
    also have "\<dots> = {i \<in> j_id ` fst ` set ?J. has_application d username i}"
      by (auto simp: image_iff)
    finally show ?thesis by (simp add: job_join_jobs)
  qed
  have rows: "\<forall>r \<in> set ?U. u_username r = Some username
            \<and> (\<exists>a \<in> set (applications d).
                  a_job_id a = u_id r \<and> a_username a = username \<and> a_state a = u_state r)"
  proof
    fix r assume "r \<in> set ?U"
    then obtain x where x: "x \<in> set ?J" "username_is username x" "r = select_user_job_row x"
      by auto
    from job_join_application [OF x(1,2)] obtain a where
      "a \<in> set (applications d)" "snd (snd x) = Some a" "a_job_id a = j_id (fst x)"
      "a_username a = username"
      by blast
    then show "u_username r = Some username
            \<and> (\<exists>a \<in> set (applications d).
                  a_job_id a = u_id r \<and> a_username a = username \<and> a_state a = u_state r)"
      using x(3) by (cases x) (auto simp: select_user_job_row_def)
  qed
  show ?thesis
    unfolding findUserJobs_def fst_conv using ids rows by blast
qed

theorem findUserJobs_applied_only_witness:
  "\<exists>urows. fst (findUserJobs alice_applied ''alice'') = Inr urows \<and> set (map u_id urows) = {2}"
proof -
  from findUserJobs_applied_only [of alice_applied "''alice''"] obtain urows where
    "fst (findUserJobs alice_applied ''alice'') = Inr urows"
    "set (map u_id urows)
       = {i \<in> set (map j_id (jobs alice_applied)). has_application alice_applied ''alice'' i}"
    by blast
  moreover have "{i \<in> set (map j_id (jobs alice_applied)). has_application alice_applied ''alice'' i}
       = {2}"
    by (auto simp: alice_applied_def three_jobs_def has_application_def)
  ultimately show ?thesis by auto
qed


section \<open>Shape of the statement built by findAll\<close>

text \<open>
  Claim C4: for every criteria object, the username is the first positional parameter of
  the statement \<open>findAll\<close> builds; every criterion that is present (the source tests
  \<open>data.min_salary\<close>, \<open>data.max_equity\<close> and \<open>data.search\<close> for truthiness) adds exactly
  one expression and exactly one parameter, in the order salary, equity, search, each
  expression naming the position of its own parameter; the expressions are joined with
  \<open>AND\<close> only; and with no criterion present the statement is the base query, without
  \<open>WHERE\<close>.
\<close>

theorem findAll_query_shape:
  "queryValues (findAll_query pf data username) ! 0 = JStr username
   \<and> queryValues (findAll_query pf data username)
       = [JStr username]
         @ (if truthy (js_get data ''min_salary'')
            then [JNum (to_number pf (js_get data ''min_employees''))] else [])
         @ (if truthy (js_get data ''max_equity'')
            then [JNum (to_number pf (js_get data ''max_employees''))] else [])
         @ (if truthy (js_get data ''search'')
            then [JStr (''%'' @ to_string pf (js_get data ''search'') @ ''%'')] else [])
   \<and> whereExpressions (findAll_query pf data username)
       = (if truthy (js_get data ''min_salary'') then [Ge ''min_salary'' 2] else [])
         @ (if truthy (js_get data ''max_equity'')
            then [Ge ''min_equity'' (2 + of_bool (truthy (js_get data ''min_salary'')))] else [])
         @ (if truthy (js_get data ''search'')
            then [ILike ''title'' (2 + of_bool (truthy (js_get data ''min_salary''))
                                     + of_bool (truthy (js_get data ''max_equity'')))] else [])
   \<and> length (queryValues (findAll_query pf data username))
       = Suc (length (whereExpressions (findAll_query pf data username)))
   \<and> map expr_param (whereExpressions (findAll_query pf data username))
       = [2 ..< 2 + length (whereExpressions (findAll_query pf data username))]
   \<and> finalQuery (findAll_query pf data username)
       = (if whereExpressions (findAll_query pf data username) = [] then baseQuery
          else baseQuery @ '' WHERE ''
               @ join '' AND '' (map render (whereExpressions (findAll_query pf data username))))"
  unfolding findAll_query_def Let_def
  by (cases "truthy (js_get data ''min_salary'')"; cases "truthy (js_get data ''max_equity'')";
      cases "truthy (js_get data ''search'')"; simp add: upt_rec)

theorem findAll_query_shape_witness:
  "queryValues (findAll_query sample_platform
       [''min_salary'' \<mapsto> JNum (Fin 60000), ''search'' \<mapsto> JStr ''dev''] ''alice'')
     = [JStr ''alice'', JNum NaN, JStr ''%dev%'']
   \<and> whereExpressions (findAll_query sample_platform
       [''min_salary'' \<mapsto> JNum (Fin 60000), ''search'' \<mapsto> JStr ''dev''] ''alice'')
     = [Ge ''min_salary'' 2, ILike ''title'' 3]
   \<and> finalQuery (findAll_query sample_platform
       [''min_salary'' \<mapsto> JNum (Fin 60000), ''search'' \<mapsto> JStr ''dev''] ''alice'')
     = baseQuery @ '' WHERE min_salary >= $2 AND title ILIKE $3''
   \<and> finalQuery (findAll_query sample_platform Map.empty ''alice'') = baseQuery"
  using findAll_query_shape [of sample_platform
          "[''min_salary'' \<mapsto> JNum (Fin 60000), ''search'' \<mapsto> JStr ''dev'']" "''alice''"]
        findAll_query_shape [of sample_platform Map.empty "''alice''"]
  by (simp add: js_get_def string_of_nat_digits)

section \<open>Identifiers that are not in storage\<close>

text \<open>
  Claim C5 says that \<open>findOne\<close>, \<open>update\<close> and \<open>remove\<close> each fail with the not-found
  error (status 404) for an identifier that is not in storage. For \<open>update\<close> this depends
  on the field map: with an empty map the partial-update helper fails first with a
  validation error, and a map naming a column that jobs does not have is refused by the
  engine.
\<close>

theorem update_absent_other_errors:
  "99 \<notin> set (map j_id (jobs three_jobs))
   \<and> fst (update three_jobs 99 []) = Inl ValidationError
   \<and> fst (update three_jobs 99 [(''bogus'', DInt 1)]) = Inl StorageError"
  by (simp add: update_def sqlForPartialUpdate_def run_update_def bound_def coerce_def
        three_jobs_def)

text \<open>
  Claim C5, amended: for every identifier that is not in storage, \<open>findOne\<close> and \<open>remove\<close>
  fail with the not-found error (status 404); \<open>update\<close> fails with the validation error
  when its field map is empty, with the not-found error when the map is one the helper
  and the engine accept (not empty, distinct columns of jobs, values convertible to
  their columns), and with a storage error in every other case, in particular whenever
  the map names a column that jobs does not have.
\<close>

theorem absent_job_not_found:
  assumes "ident \<notin> set (map j_id (jobs d))"
  shows "fst (findOne d ident) = Inl NotFound
     \<and> fst (remove d ident) = Inl NotFound
     \<and> fst (update d ident data) =
         (if data = [] then Inl ValidationError
          else if storable data then Inl NotFound
          else Inl StorageError)
     \<and> (list_ex (\<lambda>f. fst f \<notin> set job_columns) data
          \<longrightarrow> fst (update d ident data) = Inl StorageError)"
proof -
  have "fst (update d ident data) =
         (if data = [] then Inl ValidationError
          else if storable data then Inl NotFound
          else Inl StorageError)"
  proof (cases "data = []")
    case True
    then show ?thesis by (simp add: update_def sqlForPartialUpdate_def)
  next
    case False
    then show ?thesis
      using assms by (simp add: update_absent update_rejected NotFound_def)
  qed
  then show ?thesis
    using assms
    by (simp add: findOne_absent remove_absent update_unknown_column NotFound_def)
qed

theorem absent_job_not_found_witness:
  "99 \<notin> set (map j_id (jobs three_jobs))
   \<and> storable [(''title'', DText ''porter''), (''salary'', DInt 40000)]
   \<and> list_ex (\<lambda>f. fst f \<notin> set job_columns) [(''wage'', DInt 40000)]
   \<and> fst (findOne three_jobs 99) = Inl NotFound
   \<and> fst (remove three_jobs 99) = Inl NotFound
   \<and> fst (update three_jobs 99 [(''title'', DText ''porter''), (''salary'', DInt 40000)])
       = Inl NotFound
   \<and> fst (update three_jobs 99 []) = Inl ValidationError
   \<and> fst (update three_jobs 99 [(''wage'', DInt 40000)]) = Inl StorageError"
proof -
  have absent: "99 \<notin> set (map j_id (jobs three_jobs))"
    by (simp add: three_jobs_def)
  have ok: "storable [(''title'', DText ''porter''), (''salary'', DInt 40000)]"
    by (simp add: storable_def coerce_def)
  have unknown: "list_ex (\<lambda>f. fst f \<notin> set job_columns) [(''wage'', DInt 40000)]"
    by (simp add: job_columns_def)
  have refused: "\<not> storable [(''wage'', DInt 40000)]"
    by (simp add: storable_def coerce_def)
  show ?thesis
    using absent ok unknown refused
      absent_job_not_found [OF absent, of "[(''title'', DText ''porter''), (''salary'', DInt 40000)]"]
      absent_job_not_found [OF absent, of "[]"]
      absent_job_not_found [OF absent, of "[(''wage'', DInt 40000)]"]
    by simp
qed

text \<open>
  Claim C6: for every identifier, \<open>update\<close> with an empty field map fails with the
  validation error, and the state behind \<open>db.query\<close> is returned as it was, statement
  count included: no statement was sent.
\<close>

theorem update_empty_map:
  "update d ident [] = (Inl ValidationError, d)"
  by (simp add: update_def sqlForPartialUpdate_def)

theorem update_empty_map_witness:
  "update three_jobs 2 [] = (Inl ValidationError, three_jobs)
   \<and> issued (snd (update three_jobs 2 [])) = 0"
  using update_empty_map [of three_jobs 2] by (simp add: three_jobs_def)

text \<open>
  Claim C7: for every identifier that is not in storage and every username and state,
  \<open>apply\<close> fails with the not-found error and leaves the applications (and the other
  tables) as they were.
\<close>

theorem apply_absent_job:
  assumes "ident \<notin> set (map j_id (jobs d))"
  shows "fst (apply_job d ident username state) = Inl NotFound
     \<and> applications (snd (apply_job d ident username state)) = applications d
     \<and> jobs (snd (apply_job d ident username state)) = jobs d
     \<and> companies (snd (apply_job d ident username state)) = companies d"
  using assms by (simp add: apply_job_def filter_absent NotFound_def tick_def)

theorem apply_absent_job_witness:
  "99 \<notin> set (map j_id (jobs three_jobs))
   \<and> fst (apply_job three_jobs 99 ''alice'' (Some ''applied'')) = Inl NotFound
   \<and> applications (snd (apply_job three_jobs 99 ''alice'' (Some ''applied''))) = []"
proof -
  have absent: "99 \<notin> set (map j_id (jobs three_jobs))"
    by (simp add: three_jobs_def)
  have "applications three_jobs = []"
    by (simp add: three_jobs_def)
  then show ?thesis
    using absent apply_absent_job [OF absent, of "''alice''" "Some ''applied''"] by simp
qed


section \<open>Paging\<close>

text \<open>
  Claim C8: for every non-negative offset and count and every username, \<open>findSome\<close>
  succeeds; its rows are the window of at most count rows that starts at position offset
  of the joined rows put in ascending order of job identifier, so they are themselves in
  ascending order; and the count returned with them is the number of rows of jobs, which
  does not depend on offset and count.
\<close>

theorem findSome_window:
  assumes "0 \<le> offset data" and "0 \<le> amt data"
  shows "\<exists>rows ordered.
     fst (findSome d data username) = Inr (rows, length (jobs d))
     \<and> mset ordered = mset (map select_job_row (job_join d username))
     \<and> sorted (map r_id ordered)
     \<and> rows = take (nat (amt data)) (drop (nat (offset data)) ordered)
     \<and> sorted (map r_id rows)
     \<and> length rows \<le> nat (amt data)"
proof -
  let ?S = "sort_key (\<lambda>r. j_id (fst r)) (job_join d username)"
  let ?ordered = "map select_job_row ?S"
  let ?rows = "take (nat (amt data)) (drop (nat (offset data)) ?ordered)"
  have run: "fst (findSome d data username) = Inr (?rows, length (jobs d))"
    using assms by (simp add: findSome_def take_map drop_map)
  have perm: "mset ?ordered = mset (map select_job_row (job_join d username))"
    by simp
  have ord: "sorted (map r_id ?ordered)"
    by (rule sorted_select_job_row) simp
  have "sorted (map r_id ?rows)"
    using ord
    by (simp add: take_map [symmetric] drop_map [symmetric] sorted_wrt_take sorted_wrt_drop
          del: take_map drop_map)
  moreover have "length ?rows \<le> nat (amt data)" by simp
  ultimately show ?thesis using run perm ord by blast
qed

theorem findSome_window_witness:
  "0 \<le> offset \<lparr>offset = 1, amt = 1\<rparr>
   \<and> 0 \<le> amt \<lparr>offset = 1, amt = 1\<rparr>
   \<and> (\<exists>rows ordered.
         fst (findSome three_jobs \<lparr>offset = 1, amt = 1\<rparr> ''alice'')
           = Inr (rows, length (jobs three_jobs))
         \<and> mset ordered = mset (map select_job_row (job_join three_jobs ''alice''))
         \<and> sorted (map r_id ordered)
         \<and> rows = take (nat (amt \<lparr>offset = 1, amt = 1\<rparr>))
                     (drop (nat (offset \<lparr>offset = 1, amt = 1\<rparr>)) ordered)
         \<and> sorted (map r_id rows)
         \<and> length rows \<le> nat (amt \<lparr>offset = 1, amt = 1\<rparr>))
   \<and> fst (findSome three_jobs \<lparr>offset = 1, amt = 1\<rparr> ''alice'') =
       Inr ([\<lparr>r_id = 2, r_title = ''coder'', r_company_handle = ''acme'',
              r_salary = Some 70000, r_equity = None, r_name = Some ''Acme'',
              r_state = None\<rparr>], 3)"
proof -
  have h1: "0 \<le> offset \<lparr>offset = 1, amt = 1\<rparr>" by simp
  have h2: "0 \<le> amt \<lparr>offset = 1, amt = 1\<rparr>" by simp
  show ?thesis
    using h1 h2 findSome_window [OF h1 h2, of three_jobs "''alice''"] page_scenario
    by blast
qed

section \<open>Create, then read back\<close>

text \<open>
  Claim C9 says that for every input whose company exists, \<open>create\<close> followed by
  \<open>findOne\<close> on the returned identifier gives the input back. It fails where a stored
  job already carries the identifier the sequence generates next, which \<open>update\<close> can
  bring about since it passes an \<open>id\<close> key through: after
  \<open>update(1, {id: 4})\<close> on the three jobs, whose sequence stands at 4, \<open>create\<close> with
  an existing company is refused by the engine and returns no identifier.
\<close>

theorem create_after_id_update_fails:
  "fst (update three_jobs 1 [(''id'', DInt 4)]) =
     Inr \<lparr>j_id = 4, j_title = ''clerk'', j_salary = Some 50000, j_equity = None,
          j_company_handle = ''acme''\<rparr>
   \<and> company_handle tester
       \<in> set (map c_handle (companies (snd (update three_jobs 1 [(''id'', DInt 4)]))))
   \<and> fst (create (snd (update three_jobs 1 [(''id'', DInt 4)])) tester) = Inl StorageError"
proof -
  have upd: "update three_jobs 1 [(''id'', DInt 4)] =
     (Inr \<lparr>j_id = 4, j_title = ''clerk'', j_salary = Some 50000, j_equity = None,
           j_company_handle = ''acme''\<rparr>,
      tick (three_jobs\<lparr>jobs :=
        [\<lparr>j_id = 4, j_title = ''clerk'', j_salary = Some 50000, j_equity = None,
          j_company_handle = ''acme''\<rparr>,
         \<lparr>j_id = 2, j_title = ''coder'', j_salary = Some 70000, j_equity = None,
          j_company_handle = ''acme''\<rparr>,
         \<lparr>j_id = 3, j_title = ''chief'', j_salary = Some 90000, j_equity = None,
          j_company_handle = ''acme''\<rparr>]\<rparr>))"
    by (simp add: update_def sqlForPartialUpdate_def run_update_def bound_def coerce_def
          job_column_def assign_def constraints_hold_def three_jobs_def acme_def)
  show ?thesis
    unfolding upd
    by (simp add: create_def tester_def three_jobs_def acme_def tick_def)
qed

text \<open>
  Claim C9, amended: for every input whose company handle is that of an existing
  company: when no stored job carries the identifier the sequence generates next,
  \<open>create\<close> returns a row, and \<open>findOne\<close> on the identifier of that row, in the storage
  \<open>create\<close> left, returns a job whose title, salary, equity and company handle are those
  of the input; when a stored job does carry it, \<open>create\<close> fails with a storage error.
\<close>

theorem create_findOne_roundtrip:
  assumes "list_ex (\<lambda>c. c_handle c = company_handle data) (companies d)"
  shows "(next_id d \<notin> set (map j_id (jobs d)) \<longrightarrow>
           (\<exists>row d' found d''.
              create d data = (Inr row, d')
              \<and> findOne d' (j_id row) = (Inr found, d'')
              \<and> jd_id found = j_id row
              \<and> jd_title found = title data
              \<and> jd_salary found = salary data
              \<and> jd_equity found = equity data
              \<and> jd_company_handle found = company_handle data))
     \<and> (next_id d \<in> set (map j_id (jobs d)) \<longrightarrow> fst (create d data) = Inl StorageError)"
proof (intro conjI impI)
  assume unused: "next_id d \<notin> set (map j_id (jobs d))"
  let ?row = "\<lparr>j_id = next_id d, j_title = title data, j_salary = salary data,
               j_equity = equity data, j_company_handle = company_handle data\<rparr>"
  let ?d' = "(tick (d\<lparr>next_id := next_id d + 1\<rparr>))\<lparr>jobs := jobs d @ [?row]\<rparr>"
  have fresh: "\<not> list_ex (\<lambda>j. j_id j = next_id d) (jobs d)"
    using unused by (auto simp: list_ex_iff image_iff)
  have made: "create d data = (Inr ?row, ?d')"
    using assms fresh by (simp add: create_def Let_def)
  from assms obtain c cs where cs:
    "filter (\<lambda>c. c_handle c = company_handle data) (companies d) = c # cs"
    by (cases "filter (\<lambda>c. c_handle c = company_handle data) (companies d)")
       (auto simp: list_ex_iff filter_empty_conv)
  have look: "filter (\<lambda>r. j_id (fst r) = next_id d) (inner_join_company ?d')
                = map (\<lambda>c. (?row, c)) (c # cs)"
    using unused cs by (simp add: findOne_lookup filter_absent tick_def)
  have "\<exists>found d''. findOne ?d' (next_id d) = (Inr found, d'')
     \<and> jd_id found = next_id d
     \<and> jd_title found = title data
     \<and> jd_salary found = salary data
     \<and> jd_equity found = equity data
     \<and> jd_company_handle found = company_handle data"
    unfolding findOne_def look by simp
  then show "\<exists>row d' found d''.
              create d data = (Inr row, d')
              \<and> findOne d' (j_id row) = (Inr found, d'')
              \<and> jd_id found = j_id row
              \<and> jd_title found = title data
              \<and> jd_salary found = salary data
              \<and> jd_equity found = equity data
              \<and> jd_company_handle found = company_handle data"
    using made by auto
next
  assume "next_id d \<in> set (map j_id (jobs d))"
  then have "list_ex (\<lambda>j. j_id j = next_id d) (jobs d)"
    by (auto simp: list_ex_iff)
  then show "fst (create d data) = Inl StorageError"
    by (simp add: create_def Let_def)
qed

theorem create_findOne_roundtrip_witness:
  "list_ex (\<lambda>c. c_handle c = company_handle tester) (companies three_jobs)
   \<and> next_id three_jobs \<notin> set (map j_id (jobs three_jobs))
   \<and> (\<exists>row d' found d''.
         create three_jobs tester = (Inr row, d')
         \<and> findOne d' (j_id row) = (Inr found, d'')
         \<and> jd_id found = j_id row
         \<and> jd_title found = title tester
         \<and> jd_salary found = salary tester
         \<and> jd_equity found = equity tester
         \<and> jd_company_handle found = company_handle tester)
   \<and> next_id (three_jobs\<lparr>next_id := 3\<rparr>) \<in> set (map j_id (jobs (three_jobs\<lparr>next_id := 3\<rparr>)))
   \<and> fst (create (three_jobs\<lparr>next_id := 3\<rparr>) tester) = Inl StorageError"
proof -
  have h1: "list_ex (\<lambda>c. c_handle c = company_handle tester) (companies three_jobs)"
    by (simp add: tester_def three_jobs_def acme_def)
  have h2: "next_id three_jobs \<notin> set (map j_id (jobs three_jobs))"
    by (simp add: three_jobs_def)
  have h3: "list_ex (\<lambda>c. c_handle c = company_handle tester)
              (companies (three_jobs\<lparr>next_id := 3\<rparr>))"
    by (simp add: tester_def three_jobs_def acme_def)
  have h4: "next_id (three_jobs\<lparr>next_id := 3\<rparr>)
              \<in> set (map j_id (jobs (three_jobs\<lparr>next_id := 3\<rparr>)))"
    by (simp add: three_jobs_def)
  show ?thesis
    using h1 h2 h4 create_findOne_roundtrip [OF h1] create_findOne_roundtrip [OF h3]
    by blast
qed

section \<open>Falsy thresholds\<close>

text \<open>
  Claim C10: in \<open>findAll\<close>, a threshold whose value is falsy, the number 0 in
  particular, is treated as absent: the statement, its parameters and the outcome are
  those obtained with the field left out. This holds for \<open>min_salary\<close> and for
  \<open>max_equity\<close>, the field the source tests for the equity criterion, and also for
  \<open>min_equity\<close>, which the source never reads.
\<close>

theorem falsy_threshold_is_absent:
  assumes "\<not> truthy v" and "k = ''min_salary'' \<or> k = ''max_equity'' \<or> k = ''min_equity''"
  shows "findAll_query pf (data(k \<mapsto> v)) username = findAll_query pf (data(k := None)) username
     \<and> findAll pf d (data(k \<mapsto> v)) username = findAll pf d (data(k := None)) username"
proof -
  have "findAll_query pf (data(k \<mapsto> v)) username = findAll_query pf (data(k := None)) username"
  proof -
    consider "k = ''min_salary''" | "k = ''max_equity''" | "k = ''min_equity''"
      using assms(2) by blast
    then show ?thesis
    proof cases
      case 1
      then show ?thesis
        unfolding findAll_query_def Let_def using assms(1)
        by (simp add: js_get_upd cong: if_cong)
    next
      case 2
      then show ?thesis
        unfolding findAll_query_def Let_def using assms(1)
        by (simp add: js_get_upd cong: if_cong)
    next
      case 3
      then show ?thesis
        unfolding findAll_query_def Let_def
        by (simp add: js_get_upd cong: if_cong)
    qed
  qed
  then show ?thesis by (simp add: findAll_def)
qed

theorem falsy_threshold_is_absent_witness:
  "\<not> truthy (JNum (Fin 0))
   \<and> findAll_query sample_platform [''min_salary'' \<mapsto> JNum (Fin 0)] ''alice''
       = findAll_query sample_platform Map.empty ''alice''
   \<and> findAll sample_platform three_jobs [''min_salary'' \<mapsto> JNum (Fin 0)] ''alice''
       = findAll sample_platform three_jobs Map.empty ''alice''
   \<and> findAll sample_platform three_jobs [''max_equity'' \<mapsto> JNum (Fin 0)] ''alice''
       = findAll sample_platform three_jobs Map.empty ''alice''"
proof -
  have h: "\<not> truthy (JNum (Fin 0))" by simp
  show ?thesis
    using h
      falsy_threshold_is_absent [OF h, where k = "''min_salary''" and pf = sample_platform
        and data = Map.empty and username = "''alice''" and d = three_jobs]
      falsy_threshold_is_absent [OF h, where k = "''max_equity''" and pf = sample_platform
        and data = Map.empty and username = "''alice''" and d = three_jobs]
    by simp
qed

end
